theory Spec2Isabelle
  imports Main "HOL-Library.Sublist"
begin

section \<open>The relational store behind \<open>api/modules/city/views.py\<close>\<close>

text \<open>
  The views work on the tables \<open>City\<close>, \<open>CityImage\<close>, \<open>CityFact\<close>, \<open>CityVisitLog\<close>,
  \<open>Trip\<close> and \<open>User\<close>. A table is the list of its rows in the order in which the store
  returns them. A foreign key is the primary key of the row it refers to; the many-to-many
  field \<open>Trip.users\<close> is the list of the user ids attached to the trip.

  The model classes (\<open>api/models\<close>) are not among the sources. The fields below are the
  ones the views read or write (\<open>city_name\<close>, \<open>nickname\<close>, \<open>city\<close>, \<open>user\<close>, \<open>users\<close>,
  \<open>logs\<close>) together with the ones the data model of the specification lists.
\<close>

record city =
  city_id :: int
  city_name :: string
  nickname :: "string option"

record city_image =
  image_id :: int
  image_city :: int
  image_ref :: string

record city_fact =
  fact_id :: int
  fact_city :: int
  fact_text :: string

record city_visit_log =
  log_city :: int
  log_user :: int

record trip =
  trip_id :: int
  trip_city :: int
  trip_users :: "int list"

record store =
  cities :: "city list"
  city_images :: "city_image list"
  city_facts :: "city_fact list"
  logs :: "city_visit_log list"
  trips :: "trip list"
  users :: "int list"

section \<open>Exceptions and the object manager\<close>

text \<open>
  \<open>DoesNotExist\<close> is the exception of \<open>objects.get\<close> on a missing row, the only one the
  views name. Every other exception is \<open>Error msg\<close>, with \<open>msg\<close> what \<open>str(e)\<close> gives.
\<close>

datatype exn = DoesNotExist | Error string

text \<open>
  \<open>Model.objects.get(pk=k)\<close>: the row with that primary key, or \<open>DoesNotExist\<close>.
  Primary keys are unique in the store, so the first row with the key is the row.
\<close>

definition objects_get :: "('a \<Rightarrow> int) \<Rightarrow> 'a list \<Rightarrow> int \<Rightarrow> exn + 'a" where
  "objects_get pk rows k =
     (case find (\<lambda>r. pk r = k) rows of None \<Rightarrow> Inl DoesNotExist | Some r \<Rightarrow> Inr r)"

text \<open>
  \<open>Model.objects.filter(...)\<close>: the rows that satisfy the condition, in store order.
  It has no failing case: a filter with no match is the empty list.
\<close>

definition objects_filter :: "('a \<Rightarrow> bool) \<Rightarrow> 'a list \<Rightarrow> exn + 'a list" where
  "objects_filter p rows = Inr (filter p rows)"

section \<open>Serializers and responses\<close>

text \<open>
  Modelled from the spec: \<open>api/modules/city/serializers.py\<close> is not among the sources.
  \<open>CitySerializer\<close> gives the full projection of a city (identifier, name, nickname and the
  \<open>has_visited\<close> flag that \<open>get_city\<close> sets on the instance before serializing it);
  \<open>CityCondensedSerializer\<close> gives the condensed projection used in lists; the image and fact
  serializers give the fields of the row.
\<close>

record city_data =
  data_id :: int
  data_name :: string
  data_nickname :: "string option"
  data_has_visited :: bool

record city_condensed =
  condensed_id :: int
  condensed_name :: string

definition CitySerializer :: "city \<Rightarrow> bool \<Rightarrow> city_data" where
  "CitySerializer c has_visited =
     \<lparr>data_id = city_id c, data_name = city_name c, data_nickname = nickname c,
      data_has_visited = has_visited\<rparr>"

definition CityCondensedSerializer :: "city \<Rightarrow> city_condensed" where
  "CityCondensedSerializer c = \<lparr>condensed_id = city_id c, condensed_name = city_name c\<rparr>"

text \<open>JSON values: what \<open>api_response.json()\<close> returns and what a response may carry.\<close>

datatype json =
    JNull
  | JBool bool
  | JNum int
  | JStr string
  | JArr "json list"
  | JObj "(string \<times> json) list"

text \<open>
  The payload of a \<open>Response\<close>. \<open>TextTuple\<close> is a Python tuple of strings (the not-found
  message of \<open>add_city_nickname\<close> is written with a trailing comma).
\<close>

datatype body =
    NoData
  | Text string
  | TextTuple "string list"
  | CityData city_data
  | CityList "city_condensed list"
  | ImageList "city_image list"
  | FactList "city_fact list"
  | Detail json
  | DownstreamUnavailable

record response =
  status :: nat
  body :: body

text \<open>
  Modelled from the spec: \<open>api/commonresponses.py\<close> is not among the sources.
  \<open>DOWNSTREAM_ERROR_RESPONSE\<close> is the single generic "downstream service unavailable"
  response, with status 503 (the docstring of \<open>get_city_information\<close> says the same).
\<close>

definition DOWNSTREAM_ERROR_RESPONSE :: response where
  "DOWNSTREAM_ERROR_RESPONSE = \<lparr>status = 503, body = DownstreamUnavailable\<rparr>"

section \<open>The views\<close>

text \<open>
  A view takes the request (the requesting user's id, the parameters of the route, the
  form fields) and the store, and returns its outcome and the store afterwards. The
  outcome is \<open>Inr\<close> the response, or \<open>Inl\<close> an exception that no handler of the view
  catches. The requester is an authenticated user: \<open>request.user\<close> is given by its id.
\<close>

type_synonym view_result = "(exn + response) \<times> store"

text \<open>\<open>queryset.exists()\<close>\<close>

definition exists :: "'a list \<Rightarrow> bool" where
  "exists rows = (rows \<noteq> [])"

subsection \<open>\<open>get_all_cities\<close>\<close>

text \<open>\<open>annotate(visit_count=Count('logs'))\<close>: each city with the number of its log rows.\<close>

definition annotate_visit_count :: "store \<Rightarrow> (city \<times> nat) list" where
  "annotate_visit_count s =
     map (\<lambda>c. (c, length (filter (\<lambda>l. log_city l = city_id c) (logs s)))) (cities s)"

text \<open>\<open>order_by('-visit_count')\<close>: largest count first, ties in store order.\<close>

definition order_by_visit_count_desc :: "(city \<times> nat) list \<Rightarrow> (city \<times> nat) list" where
  "order_by_visit_count_desc rows = sort_key (\<lambda>r. - int (snd r)) rows"

text \<open>The queryset of \<open>get_all_cities\<close>, sliced with \<open>[:no_of_cities]\<close>.\<close>

definition top_cities :: "nat \<Rightarrow> store \<Rightarrow> (city \<times> nat) list" where
  "top_cities no_of_cities s =
     take no_of_cities (order_by_visit_count_desc (annotate_visit_count s))"

text \<open>The route may leave \<open>no_of_cities\<close> out (\<open>None\<close>); the default is 8.\<close>

definition get_all_cities :: "nat option \<Rightarrow> store \<Rightarrow> view_result" where
  "get_all_cities no_of_cities s =
     (let n = (case no_of_cities of None \<Rightarrow> 8 | Some k \<Rightarrow> k);
          cs = top_cities n s
      in (Inr \<lparr>status = 200, body = CityList (map (CityCondensedSerializer \<circ> fst) cs)\<rparr>, s))"

subsection \<open>\<open>get_city\<close>\<close>

text \<open>
  \<open>CityVisitLog(city=..., user=...).save()\<close>. Whether the store accepts the insert is not
  decided by the view: \<open>fault\<close> is \<open>Some msg\<close> when the insert raises, \<open>None\<close> when it succeeds.
\<close>

definition save_visit_log :: "string option \<Rightarrow> city_visit_log \<Rightarrow> store \<Rightarrow> exn + store" where
  "save_visit_log fault row s =
     (case fault of
        Some msg \<Rightarrow> Inl (Error msg)
      | None \<Rightarrow> Inr (s\<lparr>logs := logs s @ [row]\<rparr>))"

definition get_city :: "string option \<Rightarrow> int \<Rightarrow> int \<Rightarrow> store \<Rightarrow> view_result" where
  "get_city log_fault user cid s =
     (case objects_get city_id (cities s) cid of
        Inl DoesNotExist \<Rightarrow> (Inr \<lparr>status = 404, body = NoData\<rparr>, s)
      | Inl e \<Rightarrow> (Inl e, s)
      | Inr c \<Rightarrow>
          (let has_visited =
                 exists (filter (\<lambda>t. trip_city t = city_id c \<and> user \<in> set (trip_users t))
                           (trips s));
               s' = (case save_visit_log log_fault
                            \<lparr>log_city = city_id c, log_user = user\<rparr> s of
                       Inl e \<Rightarrow> s
                     | Inr s2 \<Rightarrow> s2)
           in (Inr \<lparr>status = 200, body = CityData (CitySerializer c has_visited)\<rparr>, s')))"

subsection \<open>\<open>get_city_by_name\<close>\<close>

text \<open>
  \<open>city_name__istartswith\<close>: a prefix test that ignores the case of the letters
  \<open>A\<close> to \<open>Z\<close> (characters are bytes here, so only ASCII letters have a case).
\<close>

definition lower :: "char \<Rightarrow> char" where
  "lower c =
     (let n = (of_char c :: nat) in if 65 \<le> n \<and> n \<le> 90 then char_of (n + 32) else c)"

definition istartswith :: "string \<Rightarrow> string \<Rightarrow> bool" where
  "istartswith name p = prefix (map lower p) (map lower name)"

definition get_city_by_name :: "string \<Rightarrow> store \<Rightarrow> view_result" where
  "get_city_by_name city_prefix s =
     (let cs = take 5 (filter (\<lambda>c. istartswith (city_name c) city_prefix) (cities s))
      in (Inr \<lparr>status = 200, body = CityList (map CityCondensedSerializer cs)\<rparr>, s))"

subsection \<open>\<open>get_all_city_images\<close>, \<open>get_all_city_facts\<close>\<close>

definition get_all_city_images :: "int \<Rightarrow> store \<Rightarrow> view_result" where
  "get_all_city_images cid s =
     (case objects_filter (\<lambda>i. image_city i = cid) (city_images s) of
        Inl DoesNotExist \<Rightarrow> (Inr \<lparr>status = 404, body = NoData\<rparr>, s)
      | Inl e \<Rightarrow> (Inl e, s)
      | Inr imgs \<Rightarrow> (Inr \<lparr>status = 200, body = ImageList imgs\<rparr>, s))"

definition get_all_city_facts :: "int \<Rightarrow> store \<Rightarrow> view_result" where
  "get_all_city_facts cid s =
     (case objects_filter (\<lambda>f. fact_city f = cid) (city_facts s) of
        Inl DoesNotExist \<Rightarrow> (Inr \<lparr>status = 404, body = NoData\<rparr>, s)
      | Inl e \<Rightarrow> (Inl e, s)
      | Inr facts \<Rightarrow> (Inr \<lparr>status = 200, body = FactList facts\<rparr>, s))"

subsection \<open>\<open>get_city_information\<close>\<close>

text \<open>
  Python's \<open>d[k]\<close> with a string key, \<open>d.keys()\<close> and \<open>list(...)[0]\<close> on a JSON value.
  \<open>JObj\<close> holds the items of a dict in insertion order. A failure is the text of the
  exception raised.
\<close>

fun subscript :: "json \<Rightarrow> string \<Rightarrow> string + json" where
  "subscript (JObj kvs) k =
     (case map_of kvs k of None \<Rightarrow> Inl ''KeyError'' | Some v \<Rightarrow> Inr v)"
| "subscript _ k = Inl ''TypeError''"

fun keys :: "json \<Rightarrow> string + string list" where
  "keys (JObj kvs) = Inr (map fst kvs)"
| "keys _ = Inl ''AttributeError''"

fun first :: "'a list \<Rightarrow> string + 'a" where
  "first [] = Inl ''IndexError''"
| "first (x # xs) = Inr x"

definition wiki_api_url :: "city \<Rightarrow> string" where
  "wiki_api_url c =
     ''https://en.wikipedia.org/w/api.php'' @
     ''?action=query&prop=extracts&explaintext&titles='' @
     city_name c @
     ''&format=json''"

text \<open>
  The statements of the \<open>try\<close> block after the city lookup, each step failing with the
  text of its exception. The outbound call and the two helpers of
  \<open>api/modules/city/utils.py\<close> (not among the sources) are parameters:
  \<open>requests_get url\<close> is \<open>Inl\<close> when \<open>requests.get\<close> raises and otherwise \<open>Inr\<close> of what
  \<open>api_response.json()\<close> gives, itself \<open>Inl\<close> when the body does not parse;
  \<open>clean_wiki_extract\<close> and \<open>extract_as_dict\<close> return \<open>Inl\<close> when they raise.
\<close>

definition city_detail ::
  "(string \<Rightarrow> string + (string + json)) \<Rightarrow> (json \<Rightarrow> string + 'x) \<Rightarrow> ('x \<Rightarrow> string + json) \<Rightarrow>
   city \<Rightarrow> string + json" where
  "city_detail requests_get clean_wiki_extract extract_as_dict c =
     (case requests_get (wiki_api_url c) of Inl e \<Rightarrow> Inl e | Inr api_response \<Rightarrow>
     (case api_response of Inl e \<Rightarrow> Inl e | Inr data \<Rightarrow>
     (case subscript data ''query'' of Inl e \<Rightarrow> Inl e | Inr query \<Rightarrow>
     (case subscript query ''pages'' of Inl e \<Rightarrow> Inl e | Inr pages \<Rightarrow>
     (case keys pages of Inl e \<Rightarrow> Inl e | Inr ks \<Rightarrow>
     (case first ks of Inl e \<Rightarrow> Inl e | Inr city_wiki_number \<Rightarrow>
     (case subscript pages city_wiki_number of Inl e \<Rightarrow> Inl e | Inr page \<Rightarrow>
     (case subscript page ''extract'' of Inl e \<Rightarrow> Inl e | Inr extract \<Rightarrow>
     (case clean_wiki_extract extract of Inl e \<Rightarrow> Inl e | Inr cleaned \<Rightarrow>
        extract_as_dict cleaned)))))))))"

definition get_city_information ::
  "(string \<Rightarrow> string + (string + json)) \<Rightarrow> (json \<Rightarrow> string + 'x) \<Rightarrow> ('x \<Rightarrow> string + json) \<Rightarrow>
   int \<Rightarrow> store \<Rightarrow> view_result" where
  "get_city_information requests_get clean_wiki_extract extract_as_dict cid s =
     (case objects_get city_id (cities s) cid of
        Inl DoesNotExist \<Rightarrow> (Inr \<lparr>status = 404, body = Text ''City does not exist''\<rparr>, s)
      | Inl (Error e) \<Rightarrow> (Inr DOWNSTREAM_ERROR_RESPONSE, s)
      | Inr c \<Rightarrow>
          (case city_detail requests_get clean_wiki_extract extract_as_dict c of
             Inl e \<Rightarrow> (Inr DOWNSTREAM_ERROR_RESPONSE, s)
           | Inr detail \<Rightarrow> (Inr \<lparr>status = 200, body = Detail detail\<rparr>, s)))"

subsection \<open>\<open>get_visited_city\<close>\<close>

text \<open>
  \<open>cities.add(trip.city)\<close> on a Python set: model instances are equal when their primary
  keys are, and an element already in the set is kept. The set is held as the list of
  its elements.
\<close>

definition set_add :: "city \<Rightarrow> city list \<Rightarrow> city list" where
  "set_add c acc = (if \<exists>d \<in> set acc. city_id d = city_id c then acc else acc @ [c])"

text \<open>
  The loop over the trips. \<open>trip.city\<close> follows the foreign key; on a key without a row
  it raises \<open>DoesNotExist\<close>, which the view does not catch.
\<close>

fun collect_cities :: "store \<Rightarrow> trip list \<Rightarrow> city list \<Rightarrow> exn + city list" where
  "collect_cities s [] acc = Inr acc"
| "collect_cities s (t # ts) acc =
     (case objects_get city_id (cities s) (trip_city t) of
        Inl e \<Rightarrow> Inl e
      | Inr c \<Rightarrow> collect_cities s ts (set_add c acc))"

text \<open>
  The serializer iterates over the set. Python yields the elements of a set in the
  order of its hash table, which the view does not decide: \<open>slot c\<close> is the place of
  \<open>c\<close> in that order.
\<close>

definition set_iter :: "(city \<Rightarrow> nat) \<Rightarrow> city list \<Rightarrow> city list" where
  "set_iter slot cs = sort_key slot cs"

text \<open>\<open>not user_id\<close> holds for \<open>None\<close> and for \<open>0\<close>.\<close>

definition get_visited_city ::
  "(city \<Rightarrow> nat) \<Rightarrow> int \<Rightarrow> int option \<Rightarrow> store \<Rightarrow> view_result" where
  "get_visited_city slot user user_id s =
     (let target = (case user_id of
                      None \<Rightarrow> user
                    | Some u \<Rightarrow> if u = 0 then user else u)
      in if \<not> exists (filter (\<lambda>u. u = target) (users s))
         then (Inr \<lparr>status = 404, body = Text ''User does not exists.''\<rparr>, s)
         else (case collect_cities s
                      (filter (\<lambda>t. target \<in> set (trip_users t)) (trips s)) [] of
                 Inl e \<Rightarrow> (Inl e, s)
               | Inr cs \<Rightarrow>
                   (Inr \<lparr>status = 200,
                         body = CityList (map CityCondensedSerializer (set_iter slot cs))\<rparr>,
                    s)))"

subsection \<open>\<open>add_city_nickname\<close>\<close>

text \<open>
  \<open>city.save()\<close>: the row with the instance's primary key is overwritten. As for the
  visit log, \<open>fault\<close> says whether the store raises instead.
\<close>

definition save_city :: "string option \<Rightarrow> city \<Rightarrow> store \<Rightarrow> exn + store" where
  "save_city fault c s =
     (case fault of
        Some msg \<Rightarrow> Inl (Error msg)
      | None \<Rightarrow>
          Inr (s\<lparr>cities := map (\<lambda>r. if city_id r = city_id c then c else r) (cities s)\<rparr>))"

text \<open>
  \<open>City.objects.get(pk=city_id)\<close> with the string of the form field: the field's
  conversion \<open>to_python\<close> of the text to a key (a parameter: \<open>Inl msg\<close> when the text is
  not a key and the conversion raises), then the lookup.
\<close>

definition get_city_by_text :: "(string \<Rightarrow> string + int) \<Rightarrow> store \<Rightarrow> string \<Rightarrow> exn + city" where
  "get_city_by_text to_python s txt =
     (case to_python txt of
        Inl msg \<Rightarrow> Inl (Error msg)
      | Inr k \<Rightarrow> objects_get city_id (cities s) k)"

text \<open>
  \<open>not v\<close> for a form field read with \<open>request.POST.get(key, None)\<close>: a field that
  is missing from the form is \<open>None\<close>, and \<open>None\<close> and the empty text are falsy.
\<close>

definition falsy :: "string option \<Rightarrow> bool" where
  "falsy v = (case v of None \<Rightarrow> True | Some txt \<Rightarrow> txt = [])"

definition add_city_nickname ::
  "(string \<Rightarrow> string + int) \<Rightarrow> string option \<Rightarrow> (string \<rightharpoonup> string) \<Rightarrow> store \<Rightarrow> view_result" where
  "add_city_nickname to_python save_fault POST s =
     (case (POST ''city_id'', POST ''nickname'') of
        (Some cid, Some nick) \<Rightarrow>
          if falsy (Some cid) \<or> falsy (Some nick)
          then (Inr \<lparr>status = 400,
                     body = Text ''Missing parameters in request. Send city_id, nickname''\<rparr>, s)
          else (case get_city_by_text to_python s cid of
                  Inl DoesNotExist \<Rightarrow>
                    (Inr \<lparr>status = 404, body = TextTuple [''City does not exist'']\<rparr>, s)
                | Inl (Error msg) \<Rightarrow> (Inr \<lparr>status = 400, body = Text msg\<rparr>, s)
                | Inr c \<Rightarrow>
                    (case save_city save_fault (c\<lparr>nickname := Some nick\<rparr>) s of
                       Inl DoesNotExist \<Rightarrow>
                         (Inr \<lparr>status = 404, body = TextTuple [''City does not exist'']\<rparr>, s)
                     | Inl (Error msg) \<Rightarrow> (Inr \<lparr>status = 400, body = Text msg\<rparr>, s)
                     | Inr s' \<Rightarrow>
                         (Inr \<lparr>status = 201, body = Text ''Successfully added nickname.''\<rparr>,
                          s')))
      | _ \<Rightarrow>
          (Inr \<lparr>status = 400,
                body = Text ''Missing parameters in request. Send city_id, nickname''\<rparr>, s))"

section \<open>Invariants and specification predicates\<close>

text \<open>
  Referential integrity of \<open>Trip.city\<close>: every trip refers to a city of the store.
  The database keeps it; \<open>trip.city\<close> raises where it fails.
\<close>

definition trips_refer_to_cities :: "store \<Rightarrow> bool" where
  "trips_refer_to_cities s =
     (\<forall>t \<in> set (trips s). \<exists>c \<in> set (cities s). city_id c = trip_city t)"

text \<open>
  The specification's reading of "every step succeeds" for the enrichment of city \<open>c\<close>:
  the outbound call returns, its body parses to \<open>data\<close>, \<open>data['query']['pages']\<close> is a
  dict with a first key whose entry has an \<open>extract\<close>, the cleaning step and the
  sectioning step return, and \<open>detail\<close> is the section dictionary.
\<close>

definition every_step_succeeds ::
  "(string \<Rightarrow> string + (string + json)) \<Rightarrow> (json \<Rightarrow> string + 'x) \<Rightarrow> ('x \<Rightarrow> string + json) \<Rightarrow>
   city \<Rightarrow> json \<Rightarrow> bool" where
  "every_step_succeeds requests_get clean_wiki_extract extract_as_dict c detail =
     (\<exists>data query pages k ks page extract cleaned.
        requests_get (wiki_api_url c) = Inr (Inr data) \<and>
        subscript data ''query'' = Inr query \<and>
        subscript query ''pages'' = Inr pages \<and>
        keys pages = Inr (k # ks) \<and>
        subscript pages k = Inr page \<and>
        subscript page ''extract'' = Inr extract \<and>
        clean_wiki_extract extract = Inr cleaned \<and>
        extract_as_dict cleaned = Inr detail)"

section \<open>Example requests\<close>

text \<open>A store with three cities, three visits, three trips and three users.\<close>

definition demo_store :: store where
  "demo_store =
     \<lparr>cities =
        [\<lparr>city_id = 1, city_name = ''Paris'', nickname = None\<rparr>,
         \<lparr>city_id = 2, city_name = ''Pune'', nickname = Some ''Oxford of the East''\<rparr>,
         \<lparr>city_id = 3, city_name = ''Lima'', nickname = None\<rparr>],
      city_images =
        [\<lparr>image_id = 1, image_city = 1, image_ref = ''paris.jpg''\<rparr>,
         \<lparr>image_id = 2, image_city = 2, image_ref = ''pune.jpg''\<rparr>,
         \<lparr>image_id = 3, image_city = 1, image_ref = ''louvre.jpg''\<rparr>],
      city_facts =
        [\<lparr>fact_id = 1, fact_city = 3, fact_text = ''Capital of Peru''\<rparr>],
      logs =
        [\<lparr>log_city = 2, log_user = 10\<rparr>,
         \<lparr>log_city = 1, log_user = 10\<rparr>,
         \<lparr>log_city = 2, log_user = 11\<rparr>],
      trips =
        [\<lparr>trip_id = 1, trip_city = 2, trip_users = [10]\<rparr>,
         \<lparr>trip_id = 2, trip_city = 2, trip_users = [10, 11]\<rparr>,
         \<lparr>trip_id = 3, trip_city = 1, trip_users = [10]\<rparr>],
      users = [10, 11, 12]\<rparr>"

text \<open>
  An example of the key conversion passed to \<open>add_city_nickname\<close>: unsigned decimal
  numerals are keys, any other text raises.
\<close>

definition is_digit :: "char \<Rightarrow> bool" where
  "is_digit c = (48 \<le> (of_char c :: nat) \<and> (of_char c :: nat) \<le> 57)"

definition decimal_key :: "string \<Rightarrow> string + int" where
  "decimal_key txt =
     (if txt \<noteq> [] \<and> list_all is_digit txt
      then Inr (int (foldl (\<lambda>n c. 10 * n + (of_char c - 48)) 0 txt))
      else Inl (''invalid literal for int() with base 10: '' @ txt))"

text \<open>An example iteration order of a set of cities: by primary key.\<close>

definition key_slot :: "city \<Rightarrow> nat" where
  "key_slot c = nat (city_id c)"

text \<open>The form \<open>{city_id: cid, nickname: nick}\<close>.\<close>

definition nickname_form :: "string \<Rightarrow> string \<Rightarrow> (string \<rightharpoonup> string)" where
  "nickname_form cid nick = [''city_id'' \<mapsto> cid, ''nickname'' \<mapsto> nick]"

text \<open>
  Example replies of the encyclopedia: a page with an extract, the reply for a title
  without a page (no \<open>extract\<close> key), and an unreachable host; an example cleaning step
  (the text of a JSON string) and an example sectioning step (one section).
\<close>

definition wiki_reply :: "string \<Rightarrow> string + (string + json)" where
  "wiki_reply url =
     Inr (Inr (JObj [(''query'', JObj [(''pages'',
       JObj [(''23'', JObj [(''extract'', JStr ''Pune is a city in India.'')])])])]))"

definition wiki_missing_page :: "string \<Rightarrow> string + (string + json)" where
  "wiki_missing_page url =
     Inr (Inr (JObj [(''query'', JObj [(''pages'',
       JObj [(''-1'', JObj [(''missing'', JStr [])])])])]))"

definition wiki_unreachable :: "string \<Rightarrow> string + (string + json)" where
  "wiki_unreachable url = Inl ''ConnectionError''"

definition clean_text :: "json \<Rightarrow> string + string" where
  "clean_text j = (case j of JStr t \<Rightarrow> Inr t | _ \<Rightarrow> Inl ''TypeError'')"

definition one_section :: "string \<Rightarrow> string + json" where
  "one_section t = Inr (JObj [(''summary'', JStr t)])"

section \<open>Lemmas about the object manager\<close>

lemma objects_get_None:
  "(\<forall>r \<in> set rows. pk r \<noteq> k) \<Longrightarrow> objects_get pk rows k = Inl DoesNotExist"
  by (induction rows) (auto simp: objects_get_def)

lemma objects_get_Some:
  "\<exists>r \<in> set rows. pk r = k \<Longrightarrow> \<exists>r \<in> set rows. pk r = k \<and> objects_get pk rows k = Inr r"
proof -
  assume "\<exists>r \<in> set rows. pk r = k"
  then have "find (\<lambda>r. pk r = k) rows \<noteq> None" by (induction rows) auto
  then obtain r where r: "find (\<lambda>r. pk r = k) rows = Some r" by blast
  then have "pk r = k" "r \<in> set rows"
    by (auto simp: find_Some_iff)
  with r show ?thesis by (auto simp: objects_get_def)
qed

lemma objects_get_Inr:
  "objects_get pk rows k = Inr r \<Longrightarrow> pk r = k \<and> r \<in> set rows"
  by (auto simp: objects_get_def find_Some_iff split: option.splits)

text \<open>The rows after \<open>city.save()\<close>: the saved key reads back the saved instance.\<close>

lemma find_after_save:
  "find (\<lambda>r. city_id r = j) (map (\<lambda>r. if city_id r = city_id c then c else r) rows) =
     (if j = city_id c then map_option (\<lambda>r. c) (find (\<lambda>r. city_id r = j) rows)
      else find (\<lambda>r. city_id r = j) rows)"
  by (induction rows) auto

lemma objects_get_after_save:
  "objects_get city_id (map (\<lambda>r. if city_id r = city_id c then c else r) rows) j =
     (if j = city_id c
      then (case objects_get city_id rows j of Inl e \<Rightarrow> Inl e | Inr r \<Rightarrow> Inr c)
      else objects_get city_id rows j)"
  by (simp add: objects_get_def find_after_save split: option.splits)

section \<open>Lemmas about the top-cities queryset\<close>

lemma count_rows:
  "length (filter (\<lambda>l. log_city l = k) ls) = count_list (map log_city ls) k"
  by (induction ls) auto

lemma order_by_desc_sorted:
  "sorted_wrt (\<lambda>a b. snd b \<le> snd a) (order_by_visit_count_desc rows)"
proof -
  have "sorted (map (\<lambda>r. - int (snd r)) (order_by_visit_count_desc rows))"
    unfolding order_by_visit_count_desc_def by (rule sorted_sort_key)
  then show ?thesis by (simp add: sorted_map)
qed

lemma top_cities_sorted: "sorted_wrt (\<lambda>a b. snd b \<le> snd a) (top_cities n s)"
  unfolding top_cities_def by (rule sorted_wrt_take) (rule order_by_desc_sorted)

lemma top_cities_length: "length (top_cities n s) \<le> n"
  by (simp add: top_cities_def)

lemma top_cities_rows:
  assumes "(c, k) \<in> set (top_cities n s)"
  shows "c \<in> set (cities s) \<and> k = count_list (map log_city (logs s)) (city_id c)"
proof -
  from assms have "(c, k) \<in> set (order_by_visit_count_desc (annotate_visit_count s))"
    unfolding top_cities_def by (rule in_set_takeD)
  then have "(c, k) \<in> set (annotate_visit_count s)"
    by (simp add: order_by_visit_count_desc_def)
  then show ?thesis
    by (auto simp: annotate_visit_count_def count_rows)
qed

section \<open>Lemmas about the prefix search, the trip loop and the enrichment steps\<close>

lemma istartswith_iff:
  "istartswith name p \<longleftrightarrow> (\<exists>rest. map lower name = map lower p @ rest)"
  by (auto simp: istartswith_def prefix_def)

lemma set_add_props:
  assumes inv: "\<forall>d \<in> set acc. objects_get city_id (cities s) (city_id d) = Inr d"
      and dist: "distinct (map city_id acc)"
      and c: "objects_get city_id (cities s) k = Inr c"
  shows "set (set_add c acc) = insert c (set acc)"
    and "distinct (map city_id (set_add c acc))"
    and "\<forall>d \<in> set (set_add c acc). objects_get city_id (cities s) (city_id d) = Inr d"
proof -
  from c have k: "city_id c = k" by (simp add: objects_get_Inr)
  show "set (set_add c acc) = insert c (set acc)"
  proof (cases "\<exists>d \<in> set acc. city_id d = city_id c")
    case True
    then obtain d where d: "d \<in> set acc" "city_id d = city_id c" by blast
    with inv have "objects_get city_id (cities s) (city_id c) = Inr d" by auto
    with c k have "d = c" by simp
    with d True show ?thesis by (auto simp: set_add_def)
  next
    case False
    then show ?thesis by (auto simp: set_add_def)
  qed
  show "distinct (map city_id (set_add c acc))"
    using dist by (auto simp: set_add_def)
  show "\<forall>d \<in> set (set_add c acc). objects_get city_id (cities s) (city_id d) = Inr d"
    using inv c k by (auto simp: set_add_def)
qed

lemma collect_cities_sound:
  assumes "\<forall>t \<in> set ts. \<exists>c \<in> set (cities s). city_id c = trip_city t"
      and "\<forall>d \<in> set acc. objects_get city_id (cities s) (city_id d) = Inr d"
      and "distinct (map city_id acc)"
  shows "\<exists>cs. collect_cities s ts acc = Inr cs \<and> distinct (map city_id cs) \<and>
           set cs = set acc \<union>
             {c. \<exists>t \<in> set ts. objects_get city_id (cities s) (trip_city t) = Inr c}"
  using assms
proof (induction ts arbitrary: acc)
  case Nil
  then show ?case by simp
next
  case (Cons t ts)
  from Cons.prems(1) have "\<exists>c \<in> set (cities s). city_id c = trip_city t" by simp
  then obtain c where c: "objects_get city_id (cities s) (trip_city t) = Inr c"
    using objects_get_Some [of "cities s" city_id "trip_city t"] by blast
  note props = set_add_props [OF Cons.prems(2) Cons.prems(3) c]
  from Cons.prems(1) have rest: "\<forall>t \<in> set ts. \<exists>c \<in> set (cities s). city_id c = trip_city t"
    by simp
  from Cons.IH [OF rest props(3) props(2)]
  obtain cs where cs: "collect_cities s ts (set_add c acc) = Inr cs"
    "distinct (map city_id cs)"
    "set cs = set (set_add c acc) \<union>
       {c. \<exists>t \<in> set ts. objects_get city_id (cities s) (trip_city t) = Inr c}"
    by blast
  have "collect_cities s (t # ts) acc = Inr cs" using c cs(1) by simp
  moreover have "set cs = set acc \<union>
      {c. \<exists>t \<in> set (t # ts). objects_get city_id (cities s) (trip_city t) = Inr c}"
    using cs(3) props(1) c by auto
  ultimately show ?case using cs(2) by blast
qed

lemma set_iter_props:
  "set (set_iter slot cs) = set cs"
  "distinct (map city_id (set_iter slot cs)) = distinct (map city_id cs)"
  by (simp_all add: set_iter_def distinct_map)

lemma first_Inr: "first ks = Inr k \<longleftrightarrow> (\<exists>rest. ks = k # rest)"
  by (cases ks) auto

lemma city_detail_Inr:
  "city_detail R C E c = Inr d \<longleftrightarrow> every_step_succeeds R C E c d"
  unfolding city_detail_def every_step_succeeds_def
  by (auto simp: first_Inr split: sum.splits)

section \<open>The claims\<close>

subsection \<open>C1: the outcomes of \<open>add_city_nickname\<close>\<close>

text \<open>
  Claim C1, as amended. A field that is missing from the body or empty gives status 400
  with the message about missing parameters, and the store is unchanged. With both
  fields present and not empty: when the text of \<open>city_id\<close> is not a key, the status is
  400 and the body is the error's text; when it is a key and no city has it, the status
  is 404; when a city has it and the save raises, the status is 400 and the body is the
  error's text, the store unchanged; when the save succeeds, the status is 201 with the
  success message, the city read back by that key carries the new nickname, every other
  key reads back as before, and a following \<open>get_city\<close> for the key shows the nickname.
\<close>

theorem add_city_nickname_outcomes:
  "(POST ''city_id'' = None \<or> POST ''city_id'' = Some [] \<or>
    POST ''nickname'' = None \<or> POST ''nickname'' = Some [] \<longrightarrow>
      add_city_nickname to_python save_fault POST s =
        (Inr \<lparr>status = 400,
              body = Text ''Missing parameters in request. Send city_id, nickname''\<rparr>, s)) \<and>
   (POST ''city_id'' = Some cid \<and> cid \<noteq> [] \<and> POST ''nickname'' = Some nick \<and> nick \<noteq> [] \<longrightarrow>
      (\<forall>msg. to_python cid = Inl msg \<longrightarrow>
         add_city_nickname to_python save_fault POST s =
           (Inr \<lparr>status = 400, body = Text msg\<rparr>, s)) \<and>
      (\<forall>k. to_python cid = Inr k \<longrightarrow>
         ((\<forall>c \<in> set (cities s). city_id c \<noteq> k) \<longrightarrow>
            add_city_nickname to_python save_fault POST s =
              (Inr \<lparr>status = 404, body = TextTuple [''City does not exist'']\<rparr>, s)) \<and>
         ((\<exists>c \<in> set (cities s). city_id c = k) \<longrightarrow>
            (\<forall>msg. save_fault = Some msg \<longrightarrow>
               add_city_nickname to_python save_fault POST s =
                 (Inr \<lparr>status = 400, body = Text msg\<rparr>, s)) \<and>
            (save_fault = None \<longrightarrow>
               (\<exists>c s'. add_city_nickname to_python save_fault POST s =
                    (Inr \<lparr>status = 201, body = Text ''Successfully added nickname.''\<rparr>, s') \<and>
                  objects_get city_id (cities s) k = Inr c \<and>
                  objects_get city_id (cities s') k = Inr (c\<lparr>nickname := Some nick\<rparr>) \<and>
                  (\<forall>j. j \<noteq> k \<longrightarrow>
                     objects_get city_id (cities s') j = objects_get city_id (cities s) j) \<and>
                  (\<exists>d. fst (get_city log_fault user k s') =
                          Inr \<lparr>status = 200, body = CityData d\<rparr> \<and>
                        data_nickname d = Some nick))))))"
proof (intro conjI allI impI)
  assume "POST ''city_id'' = None \<or> POST ''city_id'' = Some [] \<or>
    POST ''nickname'' = None \<or> POST ''nickname'' = Some []"
  then show "add_city_nickname to_python save_fault POST s =
        (Inr \<lparr>status = 400,
              body = Text ''Missing parameters in request. Send city_id, nickname''\<rparr>, s)"
    by (auto simp: add_city_nickname_def falsy_def split: option.splits)
next
  fix msg
  assume "POST ''city_id'' = Some cid \<and> cid \<noteq> [] \<and> POST ''nickname'' = Some nick \<and> nick \<noteq> []"
    and "to_python cid = Inl msg"
  then show "add_city_nickname to_python save_fault POST s =
           (Inr \<lparr>status = 400, body = Text msg\<rparr>, s)"
    by (simp add: add_city_nickname_def falsy_def get_city_by_text_def)
next
  fix k
  assume "POST ''city_id'' = Some cid \<and> cid \<noteq> [] \<and> POST ''nickname'' = Some nick \<and> nick \<noteq> []"
    and "to_python cid = Inr k" and "\<forall>c \<in> set (cities s). city_id c \<noteq> k"
  then show "add_city_nickname to_python save_fault POST s =
              (Inr \<lparr>status = 404, body = TextTuple [''City does not exist'']\<rparr>, s)"
    by (simp add: add_city_nickname_def falsy_def get_city_by_text_def objects_get_None)
next
  fix k msg
  assume "POST ''city_id'' = Some cid \<and> cid \<noteq> [] \<and> POST ''nickname'' = Some nick \<and> nick \<noteq> []"
    and "to_python cid = Inr k" and ex: "\<exists>c \<in> set (cities s). city_id c = k"
    and "save_fault = Some msg"
  moreover from ex obtain c where "objects_get city_id (cities s) k = Inr c"
    using objects_get_Some [of "cities s" city_id k] by blast
  ultimately show "add_city_nickname to_python save_fault POST s =
                 (Inr \<lparr>status = 400, body = Text msg\<rparr>, s)"
    by (simp add: add_city_nickname_def falsy_def get_city_by_text_def save_city_def)
next
  fix k
  assume form: "POST ''city_id'' = Some cid \<and> cid \<noteq> [] \<and> POST ''nickname'' = Some nick \<and> nick \<noteq> []"
    and key: "to_python cid = Inr k" and ex: "\<exists>c \<in> set (cities s). city_id c = k"
    and ok: "save_fault = None"
  from ex obtain c where c: "objects_get city_id (cities s) k = Inr c" "city_id c = k"
    using objects_get_Some [of "cities s" city_id k] by blast
  let ?c = "c\<lparr>nickname := Some nick\<rparr>"
  let ?s = "s\<lparr>cities := map (\<lambda>r. if city_id r = city_id ?c then ?c else r) (cities s)\<rparr>"
  have res: "add_city_nickname to_python save_fault POST s =
      (Inr \<lparr>status = 201, body = Text ''Successfully added nickname.''\<rparr>, ?s)"
    using form key ok c
    by (simp add: add_city_nickname_def falsy_def get_city_by_text_def save_city_def)
  have new: "objects_get city_id (cities ?s) k = Inr ?c"
    using c objects_get_after_save [of ?c "cities s" k] by simp
  have others: "\<forall>j. j \<noteq> k \<longrightarrow> objects_get city_id (cities ?s) j = objects_get city_id (cities s) j"
  proof (intro allI impI)
    fix j :: int
    assume "j \<noteq> k"
    then show "objects_get city_id (cities ?s) j = objects_get city_id (cities s) j"
      using c objects_get_after_save [of ?c "cities s" j] by simp
  qed
  have "\<exists>d. fst (get_city log_fault user k ?s) = Inr \<lparr>status = 200, body = CityData d\<rparr> \<and>
             data_nickname d = Some nick"
    using new by (simp add: get_city_def Let_def CitySerializer_def)
  with res new others c(1)
  show "\<exists>c s'. add_city_nickname to_python save_fault POST s =
                    (Inr \<lparr>status = 201, body = Text ''Successfully added nickname.''\<rparr>, s') \<and>
                  objects_get city_id (cities s) k = Inr c \<and>
                  objects_get city_id (cities s') k = Inr (c\<lparr>nickname := Some nick\<rparr>) \<and>
                  (\<forall>j. j \<noteq> k \<longrightarrow>
                     objects_get city_id (cities s') j = objects_get city_id (cities s) j) \<and>
                  (\<exists>d. fst (get_city log_fault user k s') =
                          Inr \<lparr>status = 200, body = CityData d\<rparr> \<and>
                        data_nickname d = Some nick)"
    by blast
qed

text \<open>
  The claim as first stated ("if both are present but no city with that id exists, it
  returns status 404") fails for a nickname that is present and empty: the guard
  \<open>not nickname\<close> answers 400 before the city is looked up.
\<close>

theorem add_city_nickname_empty_field_counterexample:
  "nickname_form ''99'' '''' ''city_id'' = Some ''99'' \<and>
   nickname_form ''99'' '''' ''nickname'' = Some '''' \<and>
   decimal_key ''99'' = Inr 99 \<and>
   objects_get city_id (cities demo_store) 99 = Inl DoesNotExist \<and>
   fst (add_city_nickname decimal_key None (nickname_form ''99'' '''') demo_store) =
     Inr \<lparr>status = 400,
          body = Text ''Missing parameters in request. Send city_id, nickname''\<rparr>"
  by (simp add: nickname_form_def decimal_key_def is_digit_def objects_get_def demo_store_def
        add_city_nickname_def falsy_def)

text \<open>
  The scenarios of the specification on the example store: an update for city 1, an
  unknown city, a body without nickname, and a save that the store rejects.
\<close>

theorem add_city_nickname_outcomes_witness:
  "fst (add_city_nickname decimal_key None (nickname_form ''1'' ''City of Light'') demo_store) =
     Inr \<lparr>status = 201, body = Text ''Successfully added nickname.''\<rparr> \<and>
   objects_get city_id
       (cities (snd (add_city_nickname decimal_key None
                       (nickname_form ''1'' ''City of Light'') demo_store))) 1 =
     Inr \<lparr>city_id = 1, city_name = ''Paris'', nickname = Some ''City of Light''\<rparr> \<and>
   fst (add_city_nickname decimal_key None (nickname_form ''99'' ''Nowhere'') demo_store) =
     Inr \<lparr>status = 404, body = TextTuple [''City does not exist'']\<rparr> \<and>
   fst (add_city_nickname decimal_key None [''city_id'' \<mapsto> ''1''] demo_store) =
     Inr \<lparr>status = 400,
          body = Text ''Missing parameters in request. Send city_id, nickname''\<rparr> \<and>
   fst (add_city_nickname decimal_key (Some ''value too long'')
          (nickname_form ''1'' ''City of Light'') demo_store) =
     Inr \<lparr>status = 400, body = Text ''value too long''\<rparr>"
proof -
  have key1: "decimal_key ''1'' = Inr 1" and key99: "decimal_key ''99'' = Inr 99"
    by (simp_all add: decimal_key_def is_digit_def)
  have paris: "objects_get city_id (cities demo_store) 1 =
      Inr \<lparr>city_id = 1, city_name = ''Paris'', nickname = None\<rparr>"
    by (simp add: objects_get_def demo_store_def)
  have has1: "\<exists>c \<in> set (cities demo_store). city_id c = 1"
    and no99: "\<forall>c \<in> set (cities demo_store). city_id c \<noteq> 99"
    by (simp_all add: demo_store_def)
  have form1: "nickname_form ''1'' ''City of Light'' ''city_id'' = Some ''1'' \<and> ''1'' \<noteq> [] \<and>
      nickname_form ''1'' ''City of Light'' ''nickname'' = Some ''City of Light'' \<and>
      ''City of Light'' \<noteq> []"
    by (simp add: nickname_form_def)
  have form99: "nickname_form ''99'' ''Nowhere'' ''city_id'' = Some ''99'' \<and> ''99'' \<noteq> [] \<and>
      nickname_form ''99'' ''Nowhere'' ''nickname'' = Some ''Nowhere'' \<and> ''Nowhere'' \<noteq> []"
    by (simp add: nickname_form_def)
  have missing: "[''city_id'' \<mapsto> ''1''] ''nickname'' = None"
    by simp
  from add_city_nickname_outcomes
         [where POST = "nickname_form ''1'' ''City of Light''" and to_python = decimal_key
            and save_fault = None and s = demo_store and cid = "''1''"
            and nick = "''City of Light''"]
       form1 key1 has1
  obtain c s' where created:
      "add_city_nickname decimal_key None (nickname_form ''1'' ''City of Light'') demo_store =
         (Inr \<lparr>status = 201, body = Text ''Successfully added nickname.''\<rparr>, s')"
      "objects_get city_id (cities demo_store) 1 = Inr c"
      "objects_get city_id (cities s') 1 = Inr (c\<lparr>nickname := Some ''City of Light''\<rparr>)"
    by blast
  from created(2) paris
  have c: "c = \<lparr>city_id = 1, city_name = ''Paris'', nickname = None\<rparr>" by simp
  from add_city_nickname_outcomes
         [where POST = "nickname_form ''99'' ''Nowhere''" and to_python = decimal_key
            and save_fault = None and s = demo_store and cid = "''99''"
            and nick = "''Nowhere''"]
       form99 key99 no99
  have absent: "add_city_nickname decimal_key None (nickname_form ''99'' ''Nowhere'') demo_store =
      (Inr \<lparr>status = 404, body = TextTuple [''City does not exist'']\<rparr>, demo_store)"
    by blast
  from add_city_nickname_outcomes
         [where POST = "[''city_id'' \<mapsto> ''1'']" and to_python = decimal_key
            and save_fault = None and s = demo_store]
       missing
  have bad: "add_city_nickname decimal_key None [''city_id'' \<mapsto> ''1''] demo_store =
      (Inr \<lparr>status = 400,
            body = Text ''Missing parameters in request. Send city_id, nickname''\<rparr>, demo_store)"
    by blast
  from add_city_nickname_outcomes
         [where POST = "nickname_form ''1'' ''City of Light''" and to_python = decimal_key
            and save_fault = "Some ''value too long''" and s = demo_store and cid = "''1''"
            and nick = "''City of Light''"]
       form1 key1 has1
  have rejected: "add_city_nickname decimal_key (Some ''value too long'')
          (nickname_form ''1'' ''City of Light'') demo_store =
      (Inr \<lparr>status = 400, body = Text ''value too long''\<rparr>, demo_store)"
    by blast
  show ?thesis using created(1,3) c absent bad rejected by simp
qed

subsection \<open>C2: the outcomes of \<open>get_city_information\<close>\<close>

text \<open>
  Claim C2. When no city has the given id the response is 404. When the city exists,
  the response is 200 with the section dictionary exactly when every step (outbound
  call, JSON parsing, key extraction, cleaning, sectioning) succeeds; in every other
  case it is \<open>DOWNSTREAM_ERROR_RESPONSE\<close> (status 503), which carries nothing of what
  was fetched. The store is unchanged throughout.
\<close>

theorem get_city_information_outcomes:
  "((\<forall>c \<in> set (cities s). city_id c \<noteq> cid) \<longrightarrow>
      get_city_information R C E cid s =
        (Inr \<lparr>status = 404, body = Text ''City does not exist''\<rparr>, s)) \<and>
   (\<forall>c. objects_get city_id (cities s) cid = Inr c \<longrightarrow>
      (\<forall>d. every_step_succeeds R C E c d \<longrightarrow>
         get_city_information R C E cid s = (Inr \<lparr>status = 200, body = Detail d\<rparr>, s)) \<and>
      ((\<nexists>d. every_step_succeeds R C E c d) \<longrightarrow>
         get_city_information R C E cid s = (Inr DOWNSTREAM_ERROR_RESPONSE, s)))"
proof (intro conjI allI impI)
  assume "\<forall>c \<in> set (cities s). city_id c \<noteq> cid"
  then have "objects_get city_id (cities s) cid = Inl DoesNotExist"
    by (rule objects_get_None)
  then show "get_city_information R C E cid s =
        (Inr \<lparr>status = 404, body = Text ''City does not exist''\<rparr>, s)"
    by (simp add: get_city_information_def)
next
  fix c d
  assume "objects_get city_id (cities s) cid = Inr c" "every_step_succeeds R C E c d"
  then show "get_city_information R C E cid s = (Inr \<lparr>status = 200, body = Detail d\<rparr>, s)"
    by (simp add: get_city_information_def city_detail_Inr [symmetric])
next
  fix c
  assume c: "objects_get city_id (cities s) cid = Inr c"
    and "\<nexists>d. every_step_succeeds R C E c d"
  then have "\<nexists>d. city_detail R C E c = Inr d" by (simp add: city_detail_Inr)
  then obtain e where "city_detail R C E c = Inl e"
    by (cases "city_detail R C E c") auto
  with c show "get_city_information R C E cid s = (Inr DOWNSTREAM_ERROR_RESPONSE, s)"
    by (simp add: get_city_information_def)
qed

text \<open>
  On the example store: a reply with an extract, an unreachable host, a reply without
  \<open>extract\<close>, and an unknown city.
\<close>

theorem get_city_information_outcomes_witness:
  "get_city_information wiki_reply clean_text one_section 2 demo_store =
     (Inr \<lparr>status = 200, body = Detail (JObj [(''summary'', JStr ''Pune is a city in India.'')])\<rparr>,
      demo_store) \<and>
   get_city_information wiki_unreachable clean_text one_section 2 demo_store =
     (Inr \<lparr>status = 503, body = DownstreamUnavailable\<rparr>, demo_store) \<and>
   get_city_information wiki_missing_page clean_text one_section 2 demo_store =
     (Inr \<lparr>status = 503, body = DownstreamUnavailable\<rparr>, demo_store) \<and>
   get_city_information wiki_reply clean_text one_section 99 demo_store =
     (Inr \<lparr>status = 404, body = Text ''City does not exist''\<rparr>, demo_store)"
proof -
  let ?pune = "\<lparr>city_id = 2, city_name = ''Pune'', nickname = Some ''Oxford of the East''\<rparr>"
  have pune: "objects_get city_id (cities demo_store) 2 = Inr ?pune"
    by (simp add: objects_get_def demo_store_def)
  have no99: "\<forall>c \<in> set (cities demo_store). city_id c \<noteq> 99"
    by (simp add: demo_store_def)
  have ok: "every_step_succeeds wiki_reply clean_text one_section ?pune
      (JObj [(''summary'', JStr ''Pune is a city in India.'')])"
    by (simp add: every_step_succeeds_def wiki_reply_def clean_text_def one_section_def)
  have down: "\<nexists>d. every_step_succeeds wiki_unreachable clean_text one_section ?pune d"
    by (simp add: every_step_succeeds_def wiki_unreachable_def)
  have missing: "\<nexists>d. every_step_succeeds wiki_missing_page clean_text one_section ?pune d"
    by (auto simp: every_step_succeeds_def wiki_missing_page_def)
  note outcomes = get_city_information_outcomes [where s = demo_store and C = clean_text and E = one_section]
  from outcomes [where cid = 2 and R = wiki_reply] pune ok
  have a: "get_city_information wiki_reply clean_text one_section 2 demo_store =
     (Inr \<lparr>status = 200, body = Detail (JObj [(''summary'', JStr ''Pune is a city in India.'')])\<rparr>,
      demo_store)"
    by blast
  from outcomes [where cid = 2 and R = wiki_unreachable] pune down
  have b: "get_city_information wiki_unreachable clean_text one_section 2 demo_store =
     (Inr DOWNSTREAM_ERROR_RESPONSE, demo_store)"
    by blast
  from outcomes [where cid = 2 and R = wiki_missing_page] pune missing
  have c: "get_city_information wiki_missing_page clean_text one_section 2 demo_store =
     (Inr DOWNSTREAM_ERROR_RESPONSE, demo_store)"
    by blast
  from outcomes [where cid = 99 and R = wiki_reply] no99
  have d: "get_city_information wiki_reply clean_text one_section 99 demo_store =
     (Inr \<lparr>status = 404, body = Text ''City does not exist''\<rparr>, demo_store)"
    by blast
  show ?thesis using a b c d by (simp add: DOWNSTREAM_ERROR_RESPONSE_def)
qed

subsection \<open>C3: \<open>get_city\<close> answers 200 with the projection, or 404\<close>

text \<open>
  Claim C3. When no city has the id, \<open>get_city\<close> answers 404. When one has, it answers
  200 with that city's full projection, whose \<open>has_visited\<close> flag is true exactly when
  some trip to that city has the requesting user among its users.
\<close>

theorem get_city_200_or_404:
  "((\<forall>c \<in> set (cities s). city_id c \<noteq> cid) \<longrightarrow>
      fst (get_city log_fault user cid s) = Inr \<lparr>status = 404, body = NoData\<rparr>) \<and>
   ((\<exists>c \<in> set (cities s). city_id c = cid) \<longrightarrow>
      (\<exists>c \<in> set (cities s). city_id c = cid \<and>
         fst (get_city log_fault user cid s) =
           Inr \<lparr>status = 200,
                body = CityData
                  \<lparr>data_id = cid, data_name = city_name c, data_nickname = nickname c,
                   data_has_visited =
                     (\<exists>t \<in> set (trips s). trip_city t = cid \<and> user \<in> set (trip_users t))\<rparr>\<rparr>))"
proof (intro conjI impI)
  assume "\<forall>c \<in> set (cities s). city_id c \<noteq> cid"
  then have "objects_get city_id (cities s) cid = Inl DoesNotExist"
    by (rule objects_get_None)
  then show "fst (get_city log_fault user cid s) = Inr \<lparr>status = 404, body = NoData\<rparr>"
    by (simp add: get_city_def)
next
  assume "\<exists>c \<in> set (cities s). city_id c = cid"
  then obtain c where c: "c \<in> set (cities s)" "city_id c = cid"
    "objects_get city_id (cities s) cid = Inr c"
    using objects_get_Some [of "cities s" city_id cid] by blast
  have "exists (filter (\<lambda>t. trip_city t = cid \<and> user \<in> set (trip_users t)) (trips s)) =
        (\<exists>t \<in> set (trips s). trip_city t = cid \<and> user \<in> set (trip_users t))"
    by (auto simp: exists_def filter_empty_conv)
  with c have "fst (get_city log_fault user cid s) =
           Inr \<lparr>status = 200,
                body = CityData
                  \<lparr>data_id = cid, data_name = city_name c, data_nickname = nickname c,
                   data_has_visited =
                     (\<exists>t \<in> set (trips s). trip_city t = cid \<and> user \<in> set (trip_users t))\<rparr>\<rparr>"
    by (simp add: get_city_def Let_def CitySerializer_def)
  with c show "\<exists>c \<in> set (cities s). city_id c = cid \<and>
         fst (get_city log_fault user cid s) =
           Inr \<lparr>status = 200,
                body = CityData
                  \<lparr>data_id = cid, data_name = city_name c, data_nickname = nickname c,
                   data_has_visited =
                     (\<exists>t \<in> set (trips s). trip_city t = cid \<and> user \<in> set (trip_users t))\<rparr>\<rparr>"
    by blast
qed

text \<open>A traveller, a user without trips, and an unknown city on the example store.\<close>

theorem get_city_200_or_404_witness:
  "fst (get_city None 10 2 demo_store) =
     Inr \<lparr>status = 200,
          body = CityData \<lparr>data_id = 2, data_name = ''Pune'',
                           data_nickname = Some ''Oxford of the East'',
                           data_has_visited = True\<rparr>\<rparr> \<and>
   fst (get_city None 12 2 demo_store) =
     Inr \<lparr>status = 200,
          body = CityData \<lparr>data_id = 2, data_name = ''Pune'',
                           data_nickname = Some ''Oxford of the East'',
                           data_has_visited = False\<rparr>\<rparr> \<and>
   fst (get_city None 10 99 demo_store) = Inr \<lparr>status = 404, body = NoData\<rparr>"
  using get_city_200_or_404 [where s = demo_store and cid = 2 and log_fault = None and user = 10]
        get_city_200_or_404 [where s = demo_store and cid = 2 and log_fault = None and user = 12]
        get_city_200_or_404 [where s = demo_store and cid = 99 and log_fault = None and user = 10]
  by (simp add: demo_store_def)

subsection \<open>C4: a failed visit-log insert does not change the response\<close>

text \<open>
  Claim C4. The response of \<open>get_city\<close> (status and body) is the same whether the
  insert of the visit log succeeds or raises, whatever the exception; the exception
  never leaves the view.
\<close>

theorem get_city_log_failure_ignored:
  "fst (get_city (Some msg) user cid s) = fst (get_city None user cid s) \<and>
   (\<exists>r. fst (get_city (Some msg) user cid s) = Inr r)"
  by (simp add: get_city_def objects_get_def Let_def split: option.splits)

text \<open>The response for city 2 on the example store while the insert raises.\<close>

theorem get_city_log_failure_ignored_witness:
  "fst (get_city (Some ''database is locked'') 10 2 demo_store) =
     Inr \<lparr>status = 200,
          body = CityData \<lparr>data_id = 2, data_name = ''Pune'',
                           data_nickname = Some ''Oxford of the East'',
                           data_has_visited = True\<rparr>\<rparr>"
proof -
  have "fst (get_city None 10 2 demo_store) =
     Inr \<lparr>status = 200,
          body = CityData \<lparr>data_id = 2, data_name = ''Pune'',
                           data_nickname = Some ''Oxford of the East'',
                           data_has_visited = True\<rparr>\<rparr>"
    by (simp add: get_city_def objects_get_def demo_store_def exists_def save_visit_log_def
          CitySerializer_def)
  with get_city_log_failure_ignored [of "''database is locked''" 10 2 demo_store]
  show ?thesis by simp
qed

subsection \<open>C5: \<open>get_visited_city\<close>\<close>

text \<open>
  Claim C5. With \<open>target\<close> the resolved user id: when no such user exists the response
  is 404. Otherwise (the trips referring to cities of the store) the response is 200
  with the cities of the user's trips, each city once however many trips go there; and
  a user without trips gets the empty list with status 200.
\<close>

theorem get_visited_city_distinct_cities:
  assumes "target = (case user_id of None \<Rightarrow> user | Some u \<Rightarrow> if u = 0 then user else u)"
  shows
  "(target \<notin> set (users s) \<longrightarrow>
      fst (get_visited_city slot user user_id s) =
        Inr \<lparr>status = 404, body = Text ''User does not exists.''\<rparr>) \<and>
   (target \<in> set (users s) \<and> trips_refer_to_cities s \<longrightarrow>
      (\<exists>cs. fst (get_visited_city slot user user_id s) =
               Inr \<lparr>status = 200, body = CityList (map CityCondensedSerializer cs)\<rparr> \<and>
             distinct (map city_id cs) \<and>
             set cs = {c. \<exists>t \<in> set (trips s). target \<in> set (trip_users t) \<and>
                          objects_get city_id (cities s) (trip_city t) = Inr c})) \<and>
   (target \<in> set (users s) \<and> (\<forall>t \<in> set (trips s). target \<notin> set (trip_users t)) \<longrightarrow>
      fst (get_visited_city slot user user_id s) = Inr \<lparr>status = 200, body = CityList []\<rparr>)"
proof (intro conjI impI)
  have ex: "exists (filter (\<lambda>u. u = target) (users s)) = (target \<in> set (users s))"
    by (auto simp: exists_def filter_empty_conv)
  {
    assume "target \<notin> set (users s)"
    then show "fst (get_visited_city slot user user_id s) =
        Inr \<lparr>status = 404, body = Text ''User does not exists.''\<rparr>"
      using assms ex by (simp add: get_visited_city_def)
  }
  {
    assume a: "target \<in> set (users s) \<and> trips_refer_to_cities s"
    let ?ts = "filter (\<lambda>t. target \<in> set (trip_users t)) (trips s)"
    from a have "\<forall>t \<in> set ?ts. \<exists>c \<in> set (cities s). city_id c = trip_city t"
      by (simp add: trips_refer_to_cities_def)
    from collect_cities_sound [OF this, of "[]"]
    obtain cs where cs: "collect_cities s ?ts [] = Inr cs" "distinct (map city_id cs)"
      "set cs = {c. \<exists>t \<in> set ?ts. objects_get city_id (cities s) (trip_city t) = Inr c}"
      by auto
    from a cs(1) have "fst (get_visited_city slot user user_id s) =
        Inr \<lparr>status = 200,
             body = CityList (map CityCondensedSerializer (set_iter slot cs))\<rparr>"
      using assms ex by (simp add: get_visited_city_def)
    moreover from cs(2) have "distinct (map city_id (set_iter slot cs))"
      by (simp add: set_iter_props)
    moreover from cs(3) have "set (set_iter slot cs) =
        {c. \<exists>t \<in> set (trips s). target \<in> set (trip_users t) \<and>
            objects_get city_id (cities s) (trip_city t) = Inr c}"
      by (auto simp: set_iter_props)
    ultimately show "\<exists>cs. fst (get_visited_city slot user user_id s) =
               Inr \<lparr>status = 200, body = CityList (map CityCondensedSerializer cs)\<rparr> \<and>
             distinct (map city_id cs) \<and>
             set cs = {c. \<exists>t \<in> set (trips s). target \<in> set (trip_users t) \<and>
                          objects_get city_id (cities s) (trip_city t) = Inr c}"
      by blast
  }
  {
    assume a: "target \<in> set (users s) \<and>
      (\<forall>t \<in> set (trips s). target \<notin> set (trip_users t))"
    then have "filter (\<lambda>t. target \<in> set (trip_users t)) (trips s) = []"
      by (simp add: filter_empty_conv)
    with a show "fst (get_visited_city slot user user_id s) =
        Inr \<lparr>status = 200, body = CityList []\<rparr>"
      using assms ex by (simp add: get_visited_city_def set_iter_def)
  }
qed

text \<open>
  On the example store: user 10 has two trips to city 2 and one to city 1, user 12 has
  no trip, user 13 does not exist.
\<close>

theorem get_visited_city_distinct_cities_witness:
  "trips_refer_to_cities demo_store \<and>
   fst (get_visited_city key_slot 10 None demo_store) =
     Inr \<lparr>status = 200,
          body = CityList [\<lparr>condensed_id = 1, condensed_name = ''Paris''\<rparr>,
                           \<lparr>condensed_id = 2, condensed_name = ''Pune''\<rparr>]\<rparr> \<and>
   fst (get_visited_city key_slot 10 (Some 12) demo_store) =
     Inr \<lparr>status = 200, body = CityList []\<rparr> \<and>
   fst (get_visited_city key_slot 10 (Some 13) demo_store) =
     Inr \<lparr>status = 404, body = Text ''User does not exists.''\<rparr>"
proof -
  have fk: "trips_refer_to_cities demo_store"
    by (simp add: trips_refer_to_cities_def demo_store_def)
  have u12: "(12::int) \<in> set (users demo_store)"
    and u13: "(13::int) \<notin> set (users demo_store)"
    and none12: "\<forall>t \<in> set (trips demo_store). (12::int) \<notin> set (trip_users t)"
    by (simp_all add: demo_store_def)
  have "fst (get_visited_city key_slot 10 None demo_store) =
     Inr \<lparr>status = 200,
          body = CityList [\<lparr>condensed_id = 1, condensed_name = ''Paris''\<rparr>,
                           \<lparr>condensed_id = 2, condensed_name = ''Pune''\<rparr>]\<rparr>"
    by (simp add: get_visited_city_def exists_def demo_store_def objects_get_def set_add_def
          set_iter_def key_slot_def CityCondensedSerializer_def)
  moreover
  from get_visited_city_distinct_cities
         [where target = 12 and user_id = "Some 12" and user = 10 and s = demo_store
            and slot = key_slot]
       u12 none12
  have "fst (get_visited_city key_slot 10 (Some 12) demo_store) =
     Inr \<lparr>status = 200, body = CityList []\<rparr>"
    by simp
  moreover
  from get_visited_city_distinct_cities
         [where target = 13 and user_id = "Some 13" and user = 10 and s = demo_store
            and slot = key_slot]
       u13
  have "fst (get_visited_city key_slot 10 (Some 13) demo_store) =
     Inr \<lparr>status = 404, body = Text ''User does not exists.''\<rparr>"
    by simp
  ultimately show ?thesis using fk by simp
qed

subsection \<open>C6: \<open>get_all_cities\<close> returns the top \<open>n\<close> by visit count\<close>

text \<open>
  Claim C6. With \<open>n\<close> the requested limit (8 when the route gives none), the response
  lists the condensed projections of the rows of \<open>top_cities n\<close>: at most \<open>n\<close> rows, in
  descending order of visit count, each a city of the store paired with the number of
  visit-log rows that refer to it.
\<close>

theorem get_all_cities_top_n:
  assumes "n = (case no_of_cities of None \<Rightarrow> 8 | Some k \<Rightarrow> k)"
  shows "get_all_cities no_of_cities s =
           (Inr \<lparr>status = 200,
                 body = CityList (map (CityCondensedSerializer \<circ> fst) (top_cities n s))\<rparr>, s) \<and>
         length (top_cities n s) \<le> n \<and>
         sorted_wrt (\<lambda>a b. snd b \<le> snd a) (top_cities n s) \<and>
         (\<forall>(c, k) \<in> set (top_cities n s).
            c \<in> set (cities s) \<and> k = count_list (map log_city (logs s)) (city_id c))"
proof (intro conjI)
  show "get_all_cities no_of_cities s =
          (Inr \<lparr>status = 200,
                body = CityList (map (CityCondensedSerializer \<circ> fst) (top_cities n s))\<rparr>, s)"
    using assms by (simp add: get_all_cities_def)
  show "length (top_cities n s) \<le> n" by (rule top_cities_length)
  show "sorted_wrt (\<lambda>a b. snd b \<le> snd a) (top_cities n s)" by (rule top_cities_sorted)
  show "\<forall>(c, k) \<in> set (top_cities n s).
          c \<in> set (cities s) \<and> k = count_list (map log_city (logs s)) (city_id c)"
    using top_cities_rows by blast
qed

text \<open>The two most visited cities of the example store.\<close>

theorem get_all_cities_top_n_witness:
  "top_cities 2 demo_store =
     [(\<lparr>city_id = 2, city_name = ''Pune'', nickname = Some ''Oxford of the East''\<rparr>, 2),
      (\<lparr>city_id = 1, city_name = ''Paris'', nickname = None\<rparr>, 1)] \<and>
   get_all_cities (Some 2) demo_store =
     (Inr \<lparr>status = 200,
           body = CityList [\<lparr>condensed_id = 2, condensed_name = ''Pune''\<rparr>,
                            \<lparr>condensed_id = 1, condensed_name = ''Paris''\<rparr>]\<rparr>,
      demo_store)"
proof -
  have rows: "top_cities 2 demo_store =
     [(\<lparr>city_id = 2, city_name = ''Pune'', nickname = Some ''Oxford of the East''\<rparr>, 2),
      (\<lparr>city_id = 1, city_name = ''Paris'', nickname = None\<rparr>, 1)]"
    by (simp add: top_cities_def order_by_visit_count_desc_def annotate_visit_count_def
          demo_store_def)
  have n: "(2::nat) = (case Some 2 of None \<Rightarrow> 8 | Some k \<Rightarrow> k)" by simp
  from get_all_cities_top_n [OF n, of demo_store] rows
  show ?thesis by (simp add: CityCondensedSerializer_def)
qed

subsection \<open>C7: \<open>get_city_by_name\<close> returns at most five matching cities\<close>

text \<open>
  Claim C7. The response lists at most 5 cities of the store; the name of each starts
  with the prefix when letter case is ignored, and a city whose name does not start
  with the prefix is not among them.
\<close>

theorem get_city_by_name_prefix:
  "\<exists>cs. get_city_by_name p s =
           (Inr \<lparr>status = 200, body = CityList (map CityCondensedSerializer cs)\<rparr>, s) \<and>
         length cs \<le> 5 \<and>
         (\<forall>c \<in> set cs.
            c \<in> set (cities s) \<and> (\<exists>rest. map lower (city_name c) = map lower p @ rest)) \<and>
         (\<forall>c \<in> set (cities s).
            (\<nexists>rest. map lower (city_name c) = map lower p @ rest) \<longrightarrow> c \<notin> set cs)"
proof -
  let ?cs = "take 5 (filter (\<lambda>c. istartswith (city_name c) p) (cities s))"
  have sub: "set ?cs \<subseteq> set (filter (\<lambda>c. istartswith (city_name c) p) (cities s))"
    by (rule set_take_subset)
  have "get_city_by_name p s =
          (Inr \<lparr>status = 200, body = CityList (map CityCondensedSerializer ?cs)\<rparr>, s)"
    by (simp add: get_city_by_name_def)
  moreover have "length ?cs \<le> 5" by simp
  moreover have "\<forall>c \<in> set ?cs.
      c \<in> set (cities s) \<and> (\<exists>rest. map lower (city_name c) = map lower p @ rest)"
    using sub by (auto simp: istartswith_iff)
  moreover have "\<forall>c \<in> set (cities s).
      (\<nexists>rest. map lower (city_name c) = map lower p @ rest) \<longrightarrow> c \<notin> set ?cs"
    using sub by (auto simp: istartswith_iff)
  ultimately show ?thesis by blast
qed

text \<open>The prefix \<open>pU\<close> on the example store finds Pune, and neither Paris nor Lima.\<close>

theorem get_city_by_name_prefix_witness:
  "get_city_by_name ''pU'' demo_store =
     (Inr \<lparr>status = 200, body = CityList [\<lparr>condensed_id = 2, condensed_name = ''Pune''\<rparr>]\<rparr>,
      demo_store) \<and>
   (\<exists>cs. get_city_by_name ''pU'' demo_store =
           (Inr \<lparr>status = 200, body = CityList (map CityCondensedSerializer cs)\<rparr>, demo_store) \<and>
         length cs \<le> 5)"
proof -
  have "get_city_by_name ''pU'' demo_store =
     (Inr \<lparr>status = 200, body = CityList [\<lparr>condensed_id = 2, condensed_name = ''Pune''\<rparr>]\<rparr>,
      demo_store)"
    by (simp add: get_city_by_name_def istartswith_def lower_def demo_store_def
          CityCondensedSerializer_def char_of_def bit_0)
  moreover from get_city_by_name_prefix [of "''pU''" demo_store]
  have "\<exists>cs. get_city_by_name ''pU'' demo_store =
           (Inr \<lparr>status = 200, body = CityList (map CityCondensedSerializer cs)\<rparr>, demo_store) \<and>
         length cs \<le> 5"
    by blast
  ultimately show ?thesis by blast
qed

subsection \<open>C8: the image and fact lists never answer 404\<close>

text \<open>
  Claim C8. For every city id, \<open>get_all_city_images\<close> and \<open>get_all_city_facts\<close> answer
  200 with the images and facts whose city field is that id (none for an id without
  rows); the filter never raises \<open>DoesNotExist\<close>, so the 404 branch is never taken.
\<close>

theorem city_images_and_facts_never_404:
  "get_all_city_images cid s =
     (Inr \<lparr>status = 200, body = ImageList (filter (\<lambda>i. image_city i = cid) (city_images s))\<rparr>, s) \<and>
   get_all_city_facts cid s =
     (Inr \<lparr>status = 200, body = FactList (filter (\<lambda>f. fact_city f = cid) (city_facts s))\<rparr>, s) \<and>
   objects_filter (\<lambda>i. image_city i = cid) (city_images s) \<noteq> Inl DoesNotExist \<and>
   objects_filter (\<lambda>f. fact_city f = cid) (city_facts s) \<noteq> Inl DoesNotExist"
  by (simp add: get_all_city_images_def get_all_city_facts_def objects_filter_def)

text \<open>The images of city 1 and the facts of the unknown city 99.\<close>

theorem city_images_and_facts_never_404_witness:
  "get_all_city_images 1 demo_store =
     (Inr \<lparr>status = 200,
           body = ImageList [\<lparr>image_id = 1, image_city = 1, image_ref = ''paris.jpg''\<rparr>,
                             \<lparr>image_id = 3, image_city = 1, image_ref = ''louvre.jpg''\<rparr>]\<rparr>,
      demo_store) \<and>
   get_all_city_facts 99 demo_store = (Inr \<lparr>status = 200, body = FactList []\<rparr>, demo_store)"
  using city_images_and_facts_never_404 [of 1 demo_store]
        city_images_and_facts_never_404 [of 99 demo_store]
  by (simp add: demo_store_def)

subsection \<open>C9: a falsy \<open>user_id\<close> means the requester\<close>

text \<open>
  Claim C9. When \<open>user_id\<close> is absent or 0, the user whose existence is checked is the
  requester: the response is 404 exactly when the requester is not a user of the store,
  and otherwise the outcome is the one computed from the requester's own trips (status
  200 with their cities). So an explicit \<open>user_id\<close> of 0 gives the same outcome as no
  \<open>user_id\<close>, and both the outcome of the request for the requester's own id. An
  explicit \<open>user_id\<close> other than 0 is not replaced: there the response is 404 exactly
  when that id is not a user of the store.
\<close>

theorem visited_city_falsy_user_id:
  "get_visited_city slot user (Some 0) s = get_visited_city slot user None s \<and>
   get_visited_city slot user None s = get_visited_city slot user (Some user) s \<and>
   (fst (get_visited_city slot user None s) =
        Inr \<lparr>status = 404, body = Text ''User does not exists.''\<rparr>) =
      (user \<notin> set (users s)) \<and>
   (fst (get_visited_city slot user (Some 0) s) =
        Inr \<lparr>status = 404, body = Text ''User does not exists.''\<rparr>) =
      (user \<notin> set (users s)) \<and>
   (user \<in> set (users s) \<longrightarrow>
      get_visited_city slot user (Some 0) s =
        (case collect_cities s (filter (\<lambda>t. user \<in> set (trip_users t)) (trips s)) [] of
           Inl e \<Rightarrow> (Inl e, s)
         | Inr cs \<Rightarrow>
             (Inr \<lparr>status = 200,
                   body = CityList (map CityCondensedSerializer (set_iter slot cs))\<rparr>, s))) \<and>
   (\<forall>u. u \<noteq> 0 \<longrightarrow>
      (fst (get_visited_city slot user (Some u) s) =
         Inr \<lparr>status = 404, body = Text ''User does not exists.''\<rparr>) =
      (u \<notin> set (users s)))"
proof -
  have ex: "exists (filter (\<lambda>u. u = k) (users s)) = (k \<in> set (users s))" for k
    by (auto simp: exists_def filter_empty_conv)
  have same: "get_visited_city slot user (Some 0) s = get_visited_city slot user None s"
    "get_visited_city slot user None s = get_visited_city slot user (Some user) s"
    by (simp_all add: get_visited_city_def)
  have none: "(fst (get_visited_city slot user None s) =
        Inr \<lparr>status = 404, body = Text ''User does not exists.''\<rparr>) =
      (user \<notin> set (users s))"
    by (simp add: get_visited_city_def ex split: sum.splits)
  have own: "user \<in> set (users s) \<longrightarrow>
      get_visited_city slot user (Some 0) s =
        (case collect_cities s (filter (\<lambda>t. user \<in> set (trip_users t)) (trips s)) [] of
           Inl e \<Rightarrow> (Inl e, s)
         | Inr cs \<Rightarrow>
             (Inr \<lparr>status = 200,
                   body = CityList (map CityCondensedSerializer (set_iter slot cs))\<rparr>, s))"
    by (simp add: get_visited_city_def ex)
  have other: "\<forall>u. u \<noteq> 0 \<longrightarrow>
      (fst (get_visited_city slot user (Some u) s) =
         Inr \<lparr>status = 404, body = Text ''User does not exists.''\<rparr>) =
      (u \<notin> set (users s))"
    by (simp add: get_visited_city_def ex split: sum.splits)
  from same none own other show ?thesis by simp
qed

text \<open>
  On the example store user 10 exists and user 13 does not. Requester 10 with
  \<open>user_id = 0\<close> gets the cities of user 10; requester 13 with \<open>user_id = 0\<close> gets 404;
  requester 13 with \<open>user_id = 10\<close> gets the cities of user 10, and requester 10 with
  \<open>user_id = 13\<close> gets 404.
\<close>

theorem visited_city_falsy_user_id_witness:
  "(10::int) \<in> set (users demo_store) \<and> (13::int) \<notin> set (users demo_store) \<and>
   get_visited_city key_slot 10 (Some 0) demo_store =
     (Inr \<lparr>status = 200,
           body = CityList [\<lparr>condensed_id = 1, condensed_name = ''Paris''\<rparr>,
                            \<lparr>condensed_id = 2, condensed_name = ''Pune''\<rparr>]\<rparr>, demo_store) \<and>
   get_visited_city key_slot 10 None demo_store =
     get_visited_city key_slot 10 (Some 0) demo_store \<and>
   fst (get_visited_city key_slot 13 (Some 0) demo_store) =
     Inr \<lparr>status = 404, body = Text ''User does not exists.''\<rparr> \<and>
   fst (get_visited_city key_slot 13 None demo_store) =
     Inr \<lparr>status = 404, body = Text ''User does not exists.''\<rparr> \<and>
   fst (get_visited_city key_slot 10 (Some 13) demo_store) =
     Inr \<lparr>status = 404, body = Text ''User does not exists.''\<rparr> \<and>
   fst (get_visited_city key_slot 13 (Some 10) demo_store) \<noteq>
     Inr \<lparr>status = 404, body = Text ''User does not exists.''\<rparr>"
proof -
  have u10: "(10::int) \<in> set (users demo_store)" and u13: "(13::int) \<notin> set (users demo_store)"
    by (simp_all add: demo_store_def)
  have trips10: "collect_cities demo_store
      (filter (\<lambda>t. (10::int) \<in> set (trip_users t)) (trips demo_store)) [] =
      Inr [\<lparr>city_id = 2, city_name = ''Pune'', nickname = Some ''Oxford of the East''\<rparr>,
           \<lparr>city_id = 1, city_name = ''Paris'', nickname = None\<rparr>]"
    by (simp add: demo_store_def objects_get_def set_add_def)
  note at10 = visited_city_falsy_user_id [of key_slot 10 demo_store]
  note at13 = visited_city_falsy_user_id [of key_slot 13 demo_store]
  from at10 have "(10::int) \<in> set (users demo_store) \<longrightarrow>
      get_visited_city key_slot 10 (Some 0) demo_store =
        (case collect_cities demo_store
                (filter (\<lambda>t. (10::int) \<in> set (trip_users t)) (trips demo_store)) [] of
           Inl e \<Rightarrow> (Inl e, demo_store)
         | Inr cs \<Rightarrow>
             (Inr \<lparr>status = 200,
                   body = CityList (map CityCondensedSerializer (set_iter key_slot cs))\<rparr>,
              demo_store))"
    by blast
  with u10 trips10
  have a: "get_visited_city key_slot 10 (Some 0) demo_store =
     (Inr \<lparr>status = 200,
           body = CityList [\<lparr>condensed_id = 1, condensed_name = ''Paris''\<rparr>,
                            \<lparr>condensed_id = 2, condensed_name = ''Pune''\<rparr>]\<rparr>, demo_store)"
    by (simp add: set_iter_def key_slot_def CityCondensedSerializer_def)
  from at10 have "get_visited_city key_slot 10 (Some 0) demo_store =
     get_visited_city key_slot 10 None demo_store"
    by blast
  then have b: "get_visited_city key_slot 10 None demo_store =
     get_visited_city key_slot 10 (Some 0) demo_store"
    by (rule sym)
  from at13 u13
  have c: "fst (get_visited_city key_slot 13 (Some 0) demo_store) =
     Inr \<lparr>status = 404, body = Text ''User does not exists.''\<rparr>"
    and d: "fst (get_visited_city key_slot 13 None demo_store) =
     Inr \<lparr>status = 404, body = Text ''User does not exists.''\<rparr>"
    by blast+
  from at10 have "(13::int) \<noteq> 0 \<longrightarrow>
      (fst (get_visited_city key_slot 10 (Some 13) demo_store) =
         Inr \<lparr>status = 404, body = Text ''User does not exists.''\<rparr>) =
      ((13::int) \<notin> set (users demo_store))"
    by blast
  with u13
  have e: "fst (get_visited_city key_slot 10 (Some 13) demo_store) =
     Inr \<lparr>status = 404, body = Text ''User does not exists.''\<rparr>"
    by simp
  from at13 have "(10::int) \<noteq> 0 \<longrightarrow>
      (fst (get_visited_city key_slot 13 (Some 10) demo_store) =
         Inr \<lparr>status = 404, body = Text ''User does not exists.''\<rparr>) =
      ((10::int) \<notin> set (users demo_store))"
    by blast
  with u10
  have f: "fst (get_visited_city key_slot 13 (Some 10) demo_store) \<noteq>
     Inr \<lparr>status = 404, body = Text ''User does not exists.''\<rparr>"
    by simp
  show ?thesis
    by (intro conjI) (rule u10 u13 a b c d e f)+
qed

subsection \<open>C10: which views write\<close>

text \<open>
  Claim C10. \<open>get_all_cities\<close>, \<open>get_city_by_name\<close>, \<open>get_all_city_images\<close>,
  \<open>get_all_city_facts\<close>, \<open>get_city_information\<close> and \<open>get_visited_city\<close> leave the store
  as it was. \<open>get_city\<close> leaves it as it was or appends one visit-log row for the city
  and the requester. \<open>add_city_nickname\<close> changes the table of cities only, and keeps
  the keys of its rows in place.
\<close>

theorem views_frame:
  "snd (get_all_cities no_of_cities s) = s \<and>
   snd (get_city_by_name city_prefix s) = s \<and>
   snd (get_all_city_images cid s) = s \<and>
   snd (get_all_city_facts cid s) = s \<and>
   snd (get_city_information R C E cid s) = s \<and>
   snd (get_visited_city slot user user_id s) = s \<and>
   (snd (get_city log_fault user cid s) = s \<or>
    snd (get_city log_fault user cid s) =
      s\<lparr>logs := logs s @ [\<lparr>log_city = cid, log_user = user\<rparr>]\<rparr>) \<and>
   (\<exists>cs. snd (add_city_nickname to_python save_fault POST s) = s\<lparr>cities := cs\<rparr> \<and>
         map city_id cs = map city_id (cities s))"
proof (intro conjI)
  show "snd (get_all_cities no_of_cities s) = s" by (simp add: get_all_cities_def)
  show "snd (get_city_by_name city_prefix s) = s" by (simp add: get_city_by_name_def)
  show "snd (get_all_city_images cid s) = s"
    by (simp add: get_all_city_images_def objects_filter_def)
  show "snd (get_all_city_facts cid s) = s"
    by (simp add: get_all_city_facts_def objects_filter_def)
  show "snd (get_city_information R C E cid s) = s"
    by (simp add: get_city_information_def split: sum.splits exn.splits)
  show "snd (get_visited_city slot user user_id s) = s"
    by (simp add: get_visited_city_def Let_def split: sum.splits)
  show "snd (get_city log_fault user cid s) = s \<or>
    snd (get_city log_fault user cid s) =
      s\<lparr>logs := logs s @ [\<lparr>log_city = cid, log_user = user\<rparr>]\<rparr>"
    by (auto simp: get_city_def Let_def save_visit_log_def dest: objects_get_Inr
          split: sum.splits exn.splits option.splits)
  show "\<exists>cs. snd (add_city_nickname to_python save_fault POST s) = s\<lparr>cities := cs\<rparr> \<and>
         map city_id cs = map city_id (cities s)"
  proof (cases "\<exists>s'. snd (add_city_nickname to_python save_fault POST s) = s' \<and> s' \<noteq> s")
    case False
    then have "snd (add_city_nickname to_python save_fault POST s) = s\<lparr>cities := cities s\<rparr>"
      by simp
    then show ?thesis by blast
  next
    case True
    then obtain c nick where c: "c \<in> set (cities s)"
      and s': "snd (add_city_nickname to_python save_fault POST s) =
        s\<lparr>cities := map (\<lambda>r. if city_id r = city_id c then c\<lparr>nickname := Some nick\<rparr> else r) (cities s)\<rparr>"
      by (auto simp: add_city_nickname_def get_city_by_text_def save_city_def
            dest: objects_get_Inr
            split: option.splits if_splits sum.splits exn.splits)
    have "map city_id (map (\<lambda>r. if city_id r = city_id c then c\<lparr>nickname := Some nick\<rparr> else r) (cities s)) = map city_id (cities s)"
      by (auto simp: o_def)
    then show ?thesis using s' by blast
  qed
qed

text \<open>The store after \<open>get_city\<close> with and without a failing insert, and after two reads.\<close>

theorem views_frame_witness:
  "snd (get_city None 10 2 demo_store) =
     demo_store\<lparr>logs := logs demo_store @ [\<lparr>log_city = 2, log_user = 10\<rparr>]\<rparr> \<and>
   snd (get_city (Some ''database is locked'') 10 2 demo_store) = demo_store \<and>
   snd (get_visited_city key_slot 10 None demo_store) = demo_store \<and>
   snd (get_all_cities None demo_store) = demo_store"
proof -
  have "snd (get_city None 10 2 demo_store) =
     demo_store\<lparr>logs := logs demo_store @ [\<lparr>log_city = 2, log_user = 10\<rparr>]\<rparr>"
    by (simp add: get_city_def objects_get_def save_visit_log_def demo_store_def)
  moreover have "snd (get_city (Some ''database is locked'') 10 2 demo_store) = demo_store"
    by (simp add: get_city_def objects_get_def save_visit_log_def demo_store_def)
  moreover from views_frame [where s = demo_store and user = 10 and user_id = None
      and no_of_cities = None and slot = key_slot]
  have "snd (get_visited_city key_slot 10 None demo_store) = demo_store \<and>
        snd (get_all_cities None demo_store) = demo_store"
    by blast
  ultimately show ?thesis by blast
qed

end
